theory Spec2Isabelle
  imports Main
begin

section \<open>Data model\<close>

text \<open>
  A Go \<^verbatim>\<open>error\<close> is known to this code through its \<^verbatim>\<open>Error()\<close> text only:
  \<^verbatim>\<open>errors.New(msg)\<close> builds one, \<^verbatim>\<open>err.Error()\<close> reads it back.
\<close>

datatype error = errors_New (Error: string)

text \<open>
  \<^verbatim>\<open>errors.Wrap(err, msg)\<close> of github.com/pkg/errors: the text is \<^verbatim>\<open>msg + ": " + err.Error()\<close>.
\<close>

definition errors_Wrap :: "error \<Rightarrow> string \<Rightarrow> error" where
  "errors_Wrap err msg = errors_New (msg @ '': '' @ Error err)"

text \<open>
  Modelled from the spec: the declaration of \<^verbatim>\<open>auth.Token\<close> is not among the sources.
  The spec names the attributes \<^verbatim>\<open>user\<close>, \<^verbatim>\<open>uid\<close>, \<^verbatim>\<open>validUntil\<close> and \<^verbatim>\<open>secret\<close>;
  the code reads \<^verbatim>\<open>token.User\<close>, \<^verbatim>\<open>token.UID\<close> and writes \<^verbatim>\<open>token.Secret\<close>.
\<close>

record Token =
  ValidUntil :: int
  User :: string
  UID :: string
  Secret :: string

text \<open>
  \<^verbatim>\<open>http.Header\<close> and \<^verbatim>\<open>url.Values\<close> map a key to the list of its values.
  \<^verbatim>\<open>Get\<close> returns the first value, or the empty string when there is none;
  \<^verbatim>\<open>Add\<close> appends; \<^verbatim>\<open>Del\<close> drops the key.
\<close>

type_synonym Values = "string \<Rightarrow> string list"

definition Get :: "Values \<Rightarrow> string \<Rightarrow> string" where
  "Get vs key = (case vs key of [] \<Rightarrow> [] | v # _ \<Rightarrow> v)"

definition Add :: "Values \<Rightarrow> string \<Rightarrow> string \<Rightarrow> Values" where
  "Add vs key v = vs(key := vs key @ [v])"

definition Del :: "Values \<Rightarrow> string \<Rightarrow> Values" where
  "Del vs key = vs(key := [])"

text \<open>
  The part of \<^verbatim>\<open>*http.Request\<close> the code reads: the header, the query of the URL
  (\<^verbatim>\<open>r.URL.Query()\<close>), the parsed form behind \<^verbatim>\<open>r.FormValue\<close>, the method and the path.
\<close>

record request =
  Header :: Values
  Query :: Values
  Form :: Values
  Method :: string
  Path :: string

definition FormValue :: "request \<Rightarrow> string \<Rightarrow> string" where
  "FormValue r key = Get (Form r) key"

text \<open>
  What a request leaves behind, in the order it happens: the calls on the
  \<^verbatim>\<open>http.ResponseWriter\<close> (\<^verbatim>\<open>WriteHeader\<close>, \<^verbatim>\<open>Write\<close>, the JSON encoder writing a payload,
  \<^verbatim>\<open>http.Redirect\<close>, \<^verbatim>\<open>w.Header().Set\<close>), the calls on the transaction of the request context, and the
  creation of a websocket sender. Log output is left out: no logger call touches the
  response, the transaction or the handshake maps.
\<close>

datatype payload = NilData | ErrorData error | OtherData string

datatype event =
    WriteHeader int
  | Write string
  | Encode payload
  | Redirect string int
  | HeaderSet string string
  | TxBegin
  | TxCommit
  | TxRollback
  | SenderInit

definition StatusOK :: int where "StatusOK = 200"
definition StatusTemporaryRedirect :: int where "StatusTemporaryRedirect = 307"
definition StatusBadRequest :: int where "StatusBadRequest = 400"
definition StatusUnauthorized :: int where "StatusUnauthorized = 401"
definition StatusInternalServerError :: int where "StatusInternalServerError = 500"

text \<open>
  Modelled from the spec: the declarations of \<^verbatim>\<open>util.Logger\<close>, of \<^verbatim>\<open>api.Context\<close> and of
  \<^verbatim>\<open>websocket.WebsocketSender\<close> are not among the sources. A logger carries a trace
  identifier (\<^verbatim>\<open>logger.LogTraceId\<close>); a request context holds the verified token, a
  transaction handle (\<^verbatim>\<open>context.Transaction\<close>) and a logger (\<^verbatim>\<open>context.Logger\<close>); a
  sender is made from a logger (\<^verbatim>\<open>websocket.Init(logger)\<close>).
\<close>

record Logger =
  LogTraceId :: nat

record Context =
  ContextToken :: Token
  Transaction :: nat
  ContextLogger :: Logger

datatype WebsocketSender = websocket_Init Logger

text \<open>
  \<^verbatim>\<open>oauth1a.UserConfig\<close> of github.com/kurrik/oauth1a, with the string fields of the
  library's struct; \<^verbatim>\<open>&oauth1a.UserConfig{}\<close> is the value with every field empty.
\<close>

record UserConfig =
  RequestTokenSecret :: string
  RequestTokenKey :: string
  AccessTokenSecret :: string
  AccessTokenKey :: string
  Verifier :: string

definition UserConfig_zero :: UserConfig where
  "UserConfig_zero =
     \<lparr>RequestTokenSecret = [], RequestTokenKey = [], AccessTokenSecret = [],
      AccessTokenKey = [], Verifier = []\<rparr>"

text \<open>
  Modelled from the spec: the declaration of \<^verbatim>\<open>util.Osm\<close> is not among the sources. The
  code reads \<^verbatim>\<open>osm.User.DisplayName\<close> and \<^verbatim>\<open>osm.User.UserId\<close>, the external display name and
  stable identity of the user-details document. The field \<^verbatim>\<open>User\<close> of \<^verbatim>\<open>Osm\<close> is named
  \<open>OsmUser\<close> here, \<open>User\<close> being the field of the token.
\<close>

record OsmUser =
  DisplayName :: string
  UserId :: string

record Osm =
  OsmUser :: OsmUser

definition Osm_zero :: Osm where
  "Osm_zero = \<lparr>OsmUser = \<lparr>DisplayName = [], UserId = []\<rparr>\<rparr>"

text \<open>
  The outgoing request to the user-details endpoint and its answer. The body of the
  answer is given by what \<^verbatim>\<open>ioutil.ReadAll\<close> returns on it.
\<close>

record ClientRequest =
  ReqMethod :: string
  ReqURL :: string
  ReqAuthorization :: string

record ClientResponse =
  Body :: "error + string"

definition ReadAll :: "error + string \<Rightarrow> error + string" where
  "ReadAll body = body"

text \<open>
  A handler of the pipeline either returns an \<^verbatim>\<open>*ApiResponse\<close> or panics. The value of a
  panic is what \<^verbatim>\<open>recover()\<close> hands to the deferred function, which is not nil: an
  \<^verbatim>\<open>error\<close> (every fault of the Go runtime is a \<^verbatim>\<open>runtime.Error\<close>), or any other value,
  given by its \<^verbatim>\<open>%v\<close> text.
\<close>

record ApiResponse =
  statusCode :: int
  data :: payload

datatype panic_value = PanicError error | PanicOther string

datatype handler_result = Returns ApiResponse | Panics panic_value

definition BadRequestError :: "error \<Rightarrow> ApiResponse" where
  "BadRequestError err = \<lparr>statusCode = StatusBadRequest, data = ErrorData err\<rparr>"

definition InternalServerError :: "error \<Rightarrow> ApiResponse" where
  "InternalServerError err = \<lparr>statusCode = StatusInternalServerError, data = ErrorData err\<rparr>"

definition JsonResponse :: "payload \<Rightarrow> ApiResponse" where
  "JsonResponse d = \<lparr>statusCode = StatusOK, data = d\<rparr>"

definition EmptyResponse :: ApiResponse where
  "EmptyResponse = \<lparr>statusCode = StatusOK, data = NilData\<rparr>"

text \<open>
  The collaborators of the code that are not part of it: Go's library, the OAuth1
  library, the provider, the database, the clock, and the two files of this repository
  that are not among the sources (\<^verbatim>\<open>auth/token.go\<close> with \<^verbatim>\<open>verifyToken\<close> and
  \<^verbatim>\<open>createTokenString\<close>, and the file of \<^verbatim>\<open>createContext\<close>). Each is a field of the
  environment a request runs in.
  \<^item> \<open>rand_Read n\<close>: the buffer of \<open>n\<close> bytes after \<^verbatim>\<open>rand.Read\<close>, the count read, the error;
  \<^item> \<open>sha256_hex b\<close>: \<^verbatim>\<open>fmt.Sprintf("%x", sha256.Sum256(b))\<close>;
  \<^item> \<open>GetRequestToken url c\<close>: \<^verbatim>\<open>c.GetRequestToken(service, httpClient)\<close> with the service's
    callback URL \<open>url\<close>, returning the updated config;
  \<^item> \<open>GetAccessToken key verifier c\<close>: \<^verbatim>\<open>c.GetAccessToken(key, verifier, service, httpClient)\<close>;
  \<^item> \<open>xml_Unmarshal body osm\<close>: \<^verbatim>\<open>xml.Unmarshal(body, &osm)\<close>, the error and the struct after it;
  \<^item> \<open>time_Now\<close>: the clock, in nanoseconds since the epoch;
  \<^item> \<open>TypeAssertionError d\<close>: the runtime's error for the failed assertion \<^verbatim>\<open>d.(error)\<close>.
\<close>

record env =
  TrimSpace :: "string \<Rightarrow> string"
  NewLogger :: Logger
  verifyToken :: "string \<Rightarrow> error + Token"
  createTokenString :: "string \<Rightarrow> string \<Rightarrow> int \<Rightarrow> error + string"
  createContext :: "Token \<Rightarrow> nat \<Rightarrow> error + Context"
  Commit :: "nat \<Rightarrow> error option"
  Rollback :: "nat \<Rightarrow> error option"
  TypeAssertionError :: "payload \<Rightarrow> error"
  rand_Read :: "nat \<Rightarrow> string \<times> int \<times> error option"
  sha256_hex :: "string \<Rightarrow> string"
  GetRequestToken :: "string \<Rightarrow> UserConfig \<Rightarrow> error + UserConfig"
  GetAuthorizeURL :: "UserConfig \<Rightarrow> error + string"
  GetAccessToken :: "string \<Rightarrow> string \<Rightarrow> UserConfig \<Rightarrow> error + UserConfig"
  NewRequest :: "string \<Rightarrow> string \<Rightarrow> error + ClientRequest"
  Sign :: "ClientRequest \<Rightarrow> UserConfig \<Rightarrow> error + ClientRequest"
  Do :: "ClientRequest \<Rightarrow> error + ClientResponse"
  xml_Unmarshal :: "string \<Rightarrow> Osm \<Rightarrow> error option \<times> Osm"
  time_Now :: int

text \<open>
  The package-level variables of \<^verbatim>\<open>auth.go\<close>. A Go map holds pointers here, so a key is
  absent (\<open>None\<close>), mapped to nil (\<open>Some None\<close>), or mapped to a value.
  \<open>CallbackURL\<close> is \<^verbatim>\<open>service.ClientConfig.CallbackURL\<close>; \<open>tokenValidityDuration\<close> is in
  nanoseconds.
\<close>

record state =
  oauthRedirectUrl :: string
  osmUserDetailsUrl :: string
  CallbackURL :: string
  tokenValidityDuration :: int
  configs :: "string \<rightharpoonup> UserConfig option"
  loggers :: "string \<rightharpoonup> Logger option"

section \<open>util.go\<close>

definition ErrorResponse :: "error \<Rightarrow> int \<Rightarrow> event list" where
  "ErrorResponse err status = [WriteHeader status, Write (Error err)]"

definition ResponseBadRequest :: "error \<Rightarrow> event list" where
  "ResponseBadRequest err = ErrorResponse err StatusBadRequest"

definition ResponseInternalError :: "error \<Rightarrow> event list" where
  "ResponseInternalError err = ErrorResponse err StatusInternalServerError"

definition ResponseUnauthorized :: "error \<Rightarrow> event list" where
  "ResponseUnauthorized err = ErrorResponse err StatusUnauthorized"

text \<open>
  \<^verbatim>\<open>GetParam\<close>: the form value, refused when \<^verbatim>\<open>strings.TrimSpace\<close> leaves nothing of it.
  The text of the error is \<^verbatim>\<open>fmt.Sprintf("parameter '%s' not specified", param)\<close>.
\<close>

definition GetParam :: "env \<Rightarrow> string \<Rightarrow> request \<Rightarrow> error + string" where
  "GetParam e param r =
     (let val = FormValue r param in
      if TrimSpace e val = []
      then Inl (errors_New (''parameter '' @ [CHR 0x27] @ param @ [CHR 0x27] @ '' not specified''))
      else Inr val)"

section \<open>auth.go\<close>

text \<open>\<^verbatim>\<open>%d\<close> of a count: the decimal digits.\<close>

fun decimal :: "nat \<Rightarrow> string" where
  "decimal n =
     (if n < 10 then [char_of (48 + n)]
      else decimal (n div 10) @ [char_of (48 + n mod 10)])"

definition getRandomBytes :: "env \<Rightarrow> nat \<Rightarrow> error + string" where
  "getRandomBytes e count =
     (case rand_Read e count of (bytes, n, err) \<Rightarrow>
        if n \<noteq> int count
        then Inl (errors_New (''Could not read all '' @ decimal count @ '' random bytes''))
        else (case err of
                Some rerr \<Rightarrow> Inl (errors_Wrap rerr ''Unable to read random bytes'')
              | None \<Rightarrow> Inr bytes))"

text \<open>
  \<^verbatim>\<open>OauthLogin\<close> returns what it wrote to the response and the package variables after
  it. The two returns after \<^verbatim>\<open>GetRequestToken\<close> and \<^verbatim>\<open>GetAuthorizeURL\<close> write nothing.
\<close>

definition OauthLogin :: "env \<Rightarrow> request \<Rightarrow> state \<Rightarrow> event list \<times> state" where
  "OauthLogin e r s =
     (let logger = NewLogger e; userConfig = UserConfig_zero in
      case getRandomBytes e 64 of
        Inl err \<Rightarrow>
          (ResponseInternalError (errors_New ''Could not get random bytes for config key''), s)
      | Inr randomBytes \<Rightarrow>
          let configKey = sha256_hex e randomBytes in
          (case GetParam e ''redirect'' r of
             Inl err \<Rightarrow> (ResponseBadRequest err, s)
           | Inr clientRedirectUrl \<Rightarrow>
               let s1 = s\<lparr>CallbackURL :=
                          oauthRedirectUrl s @ ''?redirect='' @ clientRedirectUrl
                            @ ''&config='' @ configKey\<rparr> in
               (case GetRequestToken e (CallbackURL s1) userConfig of
                  Inl err \<Rightarrow> ([], s1)
                | Inr userConfig1 \<Rightarrow>
                    (case GetAuthorizeURL e userConfig1 of
                       Inl err \<Rightarrow> ([], s1)
                     | Inr url \<Rightarrow>
                         ([Redirect url StatusTemporaryRedirect],
                          s1\<lparr>configs := (configs s1)(configKey \<mapsto> Some userConfig1),
                             loggers := (loggers s1)(configKey \<mapsto> Some logger)\<rparr>)))))"

text \<open>
  \<^verbatim>\<open>requestAccessToken\<close> works on the config through its pointer; the model returns the
  config after the call.
\<close>

definition requestAccessToken :: "env \<Rightarrow> request \<Rightarrow> UserConfig \<Rightarrow> error + UserConfig" where
  "requestAccessToken e r userConfig =
     (let token = FormValue r ''oauth_token'';
          userConfig1 = userConfig\<lparr>AccessTokenSecret := token\<rparr>;
          userConfig2 = userConfig1\<lparr>Verifier := FormValue r ''oauth_verifier''\<rparr>
      in GetAccessToken e (RequestTokenKey userConfig2) (Verifier userConfig2) userConfig2)"

text \<open>
  \<^verbatim>\<open>requestUserInformation\<close>: the error of \<^verbatim>\<open>xml.Unmarshal\<close> is dropped, and the two fields
  are read from the struct as the decoder left it.
\<close>

definition requestUserInformation :: "env \<Rightarrow> state \<Rightarrow> UserConfig \<Rightarrow> error + string \<times> string" where
  "requestUserInformation e s userConfig =
     (case NewRequest e ''GET'' (osmUserDetailsUrl s) of
        Inl err \<Rightarrow> Inl (errors_Wrap err ''Creating request user information failed'')
      | Inr req \<Rightarrow>
          (case Sign e req userConfig of
             Inl err \<Rightarrow> Inl (errors_Wrap err ''Signing request failed'')
           | Inr req1 \<Rightarrow>
               (case Do e req1 of
                  Inl err \<Rightarrow> Inl (errors_Wrap err ''Requesting user information failed'')
                | Inr response \<Rightarrow>
                    (case ReadAll (Body response) of
                       Inl err \<Rightarrow> Inl (errors_Wrap err ''Could not get response body'')
                     | Inr responseBody \<Rightarrow>
                         (case xml_Unmarshal e responseBody Osm_zero of (uerr, osm) \<Rightarrow>
                            Inr (DisplayName (OsmUser osm), UserId (OsmUser osm)))))))"

text \<open>
  \<^verbatim>\<open>time.Now().Add(tokenValidityDuration).Unix()\<close>: whole seconds since the epoch.
\<close>

definition validUntil_of :: "env \<Rightarrow> state \<Rightarrow> int" where
  "validUntil_of e s = (time_Now e + tokenValidityDuration s) div 1000000000"

text \<open>
  \<^verbatim>\<open>OauthCallback\<close>. The lookup \<^verbatim>\<open>logger, ok := loggers[configKey]\<close> with the test
  \<^verbatim>\<open>!ok || logger == nil\<close> has three cases: key absent, key mapped to nil, key mapped to a
  logger. \<^verbatim>\<open>loggers[configKey] = nil\<close> maps the key to nil.
\<close>

definition OauthCallback :: "env \<Rightarrow> request \<Rightarrow> state \<Rightarrow> event list \<times> state" where
  "OauthCallback e r s =
     (case GetParam e ''config'' r of
        Inl err \<Rightarrow> (ResponseBadRequest err, s)
      | Inr configKey \<Rightarrow>
          (case loggers s configKey of
             None \<Rightarrow>
               (ResponseBadRequest
                  (errors_New (''Logger for config key '' @ configKey @ '' not found'')), s)
           | Some None \<Rightarrow>
               (ResponseBadRequest
                  (errors_New (''Logger for config key '' @ configKey @ '' not found'')), s)
           | Some (Some logger) \<Rightarrow>
               let s1 = s\<lparr>loggers := (loggers s)(configKey \<mapsto> None)\<rparr> in
               (case configs s1 configKey of
                  None \<Rightarrow> (ResponseBadRequest (errors_New ''User config not found''), s1)
                | Some None \<Rightarrow> (ResponseBadRequest (errors_New ''User config not found''), s1)
                | Some (Some userConfig) \<Rightarrow>
                    let s2 = s1\<lparr>configs := (configs s1)(configKey \<mapsto> None)\<rparr> in
                    (case GetParam e ''redirect'' r of
                       Inl err \<Rightarrow> (ResponseBadRequest err, s2)
                     | Inr clientRedirectUrl \<Rightarrow>
                         (case requestAccessToken e r userConfig of
                            Inl err \<Rightarrow> (ResponseInternalError err, s2)
                          | Inr userConfig1 \<Rightarrow>
                              (case requestUserInformation e s2 userConfig1 of
                                 Inl err \<Rightarrow> (ResponseInternalError err, s2)
                               | Inr (userName, userId) \<Rightarrow>
                                   let validUntil = validUntil_of e s2 in
                                   (case createTokenString e userName userId validUntil of
                                      Inl err \<Rightarrow> (ResponseInternalError err, s2)
                                    | Inr encodedTokenString \<Rightarrow>
                                        ([Redirect (clientRedirectUrl @ ''?token='' @ encodedTokenString)
                                            StatusTemporaryRedirect], s2))))))))"

text \<open>
  \<^verbatim>\<open>VerifyRequest\<close>: the token of the \<^verbatim>\<open>Authorization\<close> header, verified, with the secret
  overwritten by the empty string.
\<close>

definition VerifyRequest :: "env \<Rightarrow> request \<Rightarrow> error + Token" where
  "VerifyRequest e r =
     (let encodedToken = Get (Header r) ''Authorization'' in
      case verifyToken e encodedToken of
        Inl err \<Rightarrow> Inl err
      | Inr token \<Rightarrow> Inr (token\<lparr>Secret := []\<rparr>))"

section \<open>The request pipeline\<close>

type_synonym handler = "request \<Rightarrow> Context \<Rightarrow> handler_result"

type_synonym websocket_handler = "request \<Rightarrow> Token \<Rightarrow> WebsocketSender \<Rightarrow> event list"

text \<open>
  The body of \<^verbatim>\<open>prepareAndHandle\<close> after the \<^verbatim>\<open>defer\<close>: what it does, and the value it
  panics with, if it panics. \<^verbatim>\<open>panic(response.data.(error))\<close> panics with the error in
  \<^verbatim>\<open>data\<close>, or with the runtime's error for the assertion when \<^verbatim>\<open>data\<close> holds no error.
\<close>

definition callHandler :: "env \<Rightarrow> request \<Rightarrow> Context \<Rightarrow> handler \<Rightarrow> event list \<times> panic_value option" where
  "callHandler e r context handler =
     (case handler r context of
        Panics v \<Rightarrow> ([], Some v)
      | Returns response \<Rightarrow>
          if statusCode response \<noteq> StatusOK
          then ([], Some (case data response of
                            ErrorData err \<Rightarrow> PanicError err
                          | NilData \<Rightarrow> PanicError (TypeAssertionError e NilData)
                          | OtherData v \<Rightarrow> PanicError (TypeAssertionError e (OtherData v))))
          else (case Commit e (Transaction context) of
                  Some err \<Rightarrow> ([TxCommit], Some (PanicError err))
                | None \<Rightarrow>
                    (TxCommit # (if data response \<noteq> NilData then [Encode (data response)] else []),
                     None)))"

text \<open>
  The deferred function: nothing when \<^verbatim>\<open>recover()\<close> returns nil; otherwise the panic
  value as an error (\<^verbatim>\<open>fmt.Errorf("%v", r)\<close> for a value that is no error),
  \<^verbatim>\<open>ResponseInternalError\<close>, then \<^verbatim>\<open>context.Transaction.Rollback()\<close>, whose error is only
  logged.
\<close>

definition recovered :: "panic_value \<Rightarrow> error" where
  "recovered r = (case r of PanicError err \<Rightarrow> err | PanicOther v \<Rightarrow> errors_New v)"

definition deferred :: "env \<Rightarrow> Context \<Rightarrow> panic_value option \<Rightarrow> event list" where
  "deferred e context p =
     (case p of
        None \<Rightarrow> []
      | Some r \<Rightarrow>
          ResponseInternalError (recovered r)
            @ (case Rollback e (Transaction context) of
                 Some rollbackErr \<Rightarrow> [TxRollback]
               | None \<Rightarrow> [TxRollback]))"

text \<open>
  Modelled from the spec: \<^verbatim>\<open>createContext\<close> is not among the sources; it opens a new
  database transaction and builds the request context from the verified token, the
  transaction and a logger. \<open>TxBegin\<close> marks the open transaction of a context that was
  created.
\<close>

definition prepareAndHandle :: "env \<Rightarrow> request \<Rightarrow> handler \<Rightarrow> event list" where
  "prepareAndHandle e r handler =
     (let logger = NewLogger e in
      case VerifyRequest e r of
        Inl err \<Rightarrow> ResponseUnauthorized (errors_New ''No valid authentication token found'')
      | Inr token \<Rightarrow>
          (case createContext e token (LogTraceId logger) of
             Inl err \<Rightarrow> ResponseInternalError (errors_New ''Unable to create context'')
           | Inr context \<Rightarrow>
               (case callHandler e r context handler of (evs, p) \<Rightarrow>
                  TxBegin # evs @ deferred e context p)))"

definition authenticatedTransactionHandler :: "env \<Rightarrow> handler \<Rightarrow> request \<Rightarrow> event list" where
  "authenticatedTransactionHandler e handler r =
     HeaderSet ''Access-Control-Allow-Origin'' ''*'' # prepareAndHandle e r handler"

text \<open>
  \<^verbatim>\<open>authenticatedWebsocket\<close>. The Go literal \<^verbatim>\<open>"\u009e"\<close> is the two bytes C2 9E.
  \<^verbatim>\<open>query.Del("token")\<close> changes the copy \<^verbatim>\<open>r.URL.Query()\<close> returned, not the request.
\<close>

definition authenticatedWebsocket :: "env \<Rightarrow> websocket_handler \<Rightarrow> request \<Rightarrow> event list" where
  "authenticatedWebsocket e handler r =
     (let logger = NewLogger e;
          query = Query r;
          t = Get query ''token''
      in if t = [] \<or> t = ''null'' \<or> t = [CHR 0xC2, CHR 0x9E]
         then ResponseUnauthorized
                (errors_New (''could not establish websocket connection: query parameter ''
                   @ [CHR 0x27] @ ''token'' @ [CHR 0x27] @ '' not set''))
         else
           let r1 = r\<lparr>Header := Add (Header r) ''Authorization'' t\<rparr> in
           (case VerifyRequest e r1 of
              Inl err \<Rightarrow> ResponseUnauthorized (errors_New ''No valid authentication token found'')
            | Inr token \<Rightarrow> SenderInit # handler r1 token (websocket_Init logger)))"

section \<open>The token codec\<close>

text \<open>
  Modelled from the spec: \<^verbatim>\<open>createTokenString\<close> and \<^verbatim>\<open>verifyToken\<close> (\<^verbatim>\<open>auth/token.go\<close>) are
  not among the sources. By the spec, \<open>Issue\<close> encodes identity and expiry plus a
  signature computed over that content with the server's key, and fails only on a
  serialization error; \<open>Verify\<close> recomputes and compares the signature, checks
  \<open>now \<le> validUntil\<close>, and fails with \<open>InvalidSignature\<close> or \<open>Expired\<close>. The keyed
  signature \<open>sign\<close> and the serialization \<open>encode\<close>, \<open>decode\<close> are parameters. \<open>Verify\<close>
  stands for \<^verbatim>\<open>verifyToken\<close>: the secret is cleared by \<^verbatim>\<open>VerifyRequest\<close>, in the sources.
\<close>

definition Issue ::
  "(string \<Rightarrow> string \<Rightarrow> int \<Rightarrow> string) \<Rightarrow> (Token \<Rightarrow> error + string)
     \<Rightarrow> string \<Rightarrow> string \<Rightarrow> int \<Rightarrow> error + string" where
  "Issue sign encode user uid validUntil =
     encode \<lparr>ValidUntil = validUntil, User = user, UID = uid, Secret = sign user uid validUntil\<rparr>"

definition Verify ::
  "(string \<Rightarrow> string \<Rightarrow> int \<Rightarrow> string) \<Rightarrow> (string \<Rightarrow> error + Token)
     \<Rightarrow> int \<Rightarrow> string \<Rightarrow> error + Token" where
  "Verify sign decode now encodedToken =
     (case decode encodedToken of
        Inl err \<Rightarrow> Inl err
      | Inr token \<Rightarrow>
          if Secret token \<noteq> sign (User token) (UID token) (ValidUntil token)
          then Inl (errors_New ''InvalidSignature'')
          else if now \<le> ValidUntil token then Inr token
          else Inl (errors_New ''Expired''))"

section \<open>Sequences of calls and counts of events\<close>

text \<open>
  A run of callback requests, each in the environment it meets, threading the package
  variables from one call to the next.
\<close>

fun callbacks :: "(env \<times> request) list \<Rightarrow> state \<Rightarrow> state" where
  "callbacks [] s = s"
| "callbacks ((e, r) # cs) s = callbacks cs (snd (OauthCallback e r s))"

text \<open>
  A status line sent (\<^verbatim>\<open>WriteHeader\<close> or a redirect), a body written, a transaction
  resolved (commit or rollback).
\<close>

fun isStatus :: "event \<Rightarrow> bool" where
  "isStatus (WriteHeader code) = True"
| "isStatus (Redirect url code) = True"
| "isStatus ev = False"

fun isBody :: "event \<Rightarrow> bool" where
  "isBody (Write b) = True"
| "isBody (Encode d) = True"
| "isBody ev = False"

fun isResolution :: "event \<Rightarrow> bool" where
  "isResolution TxCommit = True"
| "isResolution TxRollback = True"
| "isResolution ev = False"

fun redirected :: "event list \<Rightarrow> bool" where
  "redirected [Redirect url code] = True"
| "redirected evs = False"

text \<open>
  A key whose handshake can no longer be picked up: absent from \<^verbatim>\<open>loggers\<close>, or mapped to
  nil there.
\<close>

definition consumed :: "string \<Rightarrow> state \<Rightarrow> bool" where
  "consumed k s = (loggers s k = None \<or> loggers s k = Some None)"

section \<open>A concrete environment\<close>

text \<open>
  An environment, a state and requests to run the model on: one user, \<open>alice\<close>, whose
  token string is \<open>alice.1.100.sig\<close>; a provider that answers every call; a clock at 0.
\<close>

definition trim_blanks :: "string \<Rightarrow> string" where
  "trim_blanks v =
     rev (dropWhile (\<lambda>c. c = CHR '' '') (rev (dropWhile (\<lambda>c. c = CHR '' '') v)))"

definition alice :: Token where
  "alice = \<lparr>ValidUntil = 100, User = ''alice'', UID = ''1'', Secret = ''sig''\<rparr>"

definition env0 :: env where
  "env0 =
     \<lparr>TrimSpace = trim_blanks,
      NewLogger = \<lparr>LogTraceId = 7\<rparr>,
      verifyToken = (\<lambda>v. if v = ''alice.1.100.sig'' then Inr alice
                          else Inl (errors_New ''Secret not valid'')),
      createTokenString = (\<lambda>user uid validUntil. Inr (user @ ''.'' @ uid @ ''.sig'')),
      createContext = (\<lambda>token traceId.
         Inr \<lparr>ContextToken = token, Transaction = 1, ContextLogger = \<lparr>LogTraceId = traceId\<rparr>\<rparr>),
      Commit = (\<lambda>tx. None),
      Rollback = (\<lambda>tx. None),
      TypeAssertionError = (\<lambda>d. errors_New ''interface conversion: not error''),
      rand_Read = (\<lambda>n. (replicate n (CHR ''r''), int n, None)),
      sha256_hex = (\<lambda>b. ''c0ffee''),
      GetRequestToken = (\<lambda>url c. Inr (c\<lparr>RequestTokenSecret := ''rs'', RequestTokenKey := ''rk''\<rparr>)),
      GetAuthorizeURL = (\<lambda>c. Inr (''https://osm/oauth/authorize?oauth_token='' @ RequestTokenKey c)),
      GetAccessToken = (\<lambda>key verifier c. Inr (c\<lparr>AccessTokenKey := ''ak''\<rparr>)),
      NewRequest = (\<lambda>m u. Inr \<lparr>ReqMethod = m, ReqURL = u, ReqAuthorization = []\<rparr>),
      Sign = (\<lambda>req c. Inr (req\<lparr>ReqAuthorization := ''OAuth''\<rparr>)),
      Do = (\<lambda>req. Inr \<lparr>Body = Inr ''<html>''\<rparr>),
      xml_Unmarshal = (\<lambda>body osm. (Some (errors_New ''EOF''), osm)),
      time_Now = 0\<rparr>"

definition state0 :: state where
  "state0 =
     \<lparr>oauthRedirectUrl = ''https://stm:8080/oauth_callback'',
      osmUserDetailsUrl = ''https://osm/api/0.6/user/details'',
      CallbackURL = ''https://stm:8080/oauth_callback'',
      tokenValidityDuration = 24 * 3600 * 1000000000,
      configs = Map.empty,
      loggers = Map.empty\<rparr>"

definition no_values :: Values where
  "no_values = (\<lambda>key. [])"

definition request0 :: request where
  "request0 =
     \<lparr>Header = no_values, Query = no_values, Form = no_values, Method = ''GET'', Path = ''/projects''\<rparr>"

text \<open>A state with one pending handshake under the key \<open>c0ffee\<close>.\<close>

definition state1 :: state where
  "state1 =
     state0\<lparr>configs := [''c0ffee'' \<mapsto> Some (UserConfig_zero\<lparr>RequestTokenKey := ''rk''\<rparr>)],
            loggers := [''c0ffee'' \<mapsto> Some \<lparr>LogTraceId = 7\<rparr>]\<rparr>"

definition callback_request :: request where
  "callback_request =
     request0\<lparr>Form := no_values(''config'' := [''c0ffee''], ''redirect'' := [''https://client/land''],
                                  ''oauth_token'' := [''ot''], ''oauth_verifier'' := [''ov''])\<rparr>"

definition alice_request :: request where
  "alice_request = request0\<lparr>Header := no_values(''Authorization'' := [''alice.1.100.sig''])\<rparr>"

definition login_request :: request where
  "login_request = request0\<lparr>Form := no_values(''redirect'' := [''https://client/land''])\<rparr>"

definition null_token_request :: request where
  "null_token_request = request0\<lparr>Query := no_values(''token'' := [''null''])\<rparr>"

text \<open>Two handlers: one that panics, one that declares a bad request.\<close>

definition panicking_handler :: handler where
  "panicking_handler r context = Panics (PanicOther ''index out of range'')"

definition refusing_handler :: handler where
  "refusing_handler r context = Returns (BadRequestError (errors_New ''project name missing''))"

definition idle_websocket_handler :: websocket_handler where
  "idle_websocket_handler r token sender = []"

text \<open>
  A provider whose user-details document is cut off after the start tag of the user:
  \<^verbatim>\<open><osm><user display_name="bob" id="7">\<close>. Go's \<^verbatim>\<open>encoding/xml\<close> decodes in place: it has
  stored the two attributes in the struct when it meets the end of the input and returns
  its syntax error.
\<close>

definition truncated_document :: string where
  "truncated_document =
     ''<osm><user display_name='' @ [CHR 0x22] @ ''bob'' @ [CHR 0x22]
       @ '' id='' @ [CHR 0x22] @ ''7'' @ [CHR 0x22] @ ''>''"

definition env_truncated :: env where
  "env_truncated =
     env0\<lparr>Do := (\<lambda>req. Inr \<lparr>Body = Inr truncated_document\<rparr>),
          xml_Unmarshal := (\<lambda>body osm.
            if body = truncated_document
            then (Some (errors_New ''XML syntax error on line 1: unexpected EOF''),
                  osm\<lparr>OsmUser := \<lparr>DisplayName = ''bob'', UserId = ''7''\<rparr>\<rparr>)
            else (Some (errors_New ''EOF''), osm))\<rparr>"

text \<open>A codec for the one token of \<open>alice\<close>, to run \<open>Issue\<close> and \<open>Verify\<close> on.\<close>

definition sign0 :: "string \<Rightarrow> string \<Rightarrow> int \<Rightarrow> string" where
  "sign0 user uid validUntil = ''sig''"

definition encode0 :: "Token \<Rightarrow> error + string" where
  "encode0 token =
     (if token = alice then Inr ''alice.1.100.sig'' else Inl (errors_New ''unsupported value''))"

definition decode0 :: "string \<Rightarrow> error + Token" where
  "decode0 v = (if v = ''alice.1.100.sig'' then Inr alice else Inl (errors_New ''illegal data''))"

text \<open>A provider that refuses the request-token exchange.\<close>

definition env_provider_down :: env where
  "env_provider_down =
     env0\<lparr>GetRequestToken := (\<lambda>url c. Inl (errors_New ''provider unavailable''))\<rparr>"

section \<open>Basic facts\<close>

lemmas status_defs =
  StatusOK_def StatusTemporaryRedirect_def StatusBadRequest_def StatusUnauthorized_def
  StatusInternalServerError_def

lemmas response_defs =
  ErrorResponse_def ResponseBadRequest_def ResponseInternalError_def ResponseUnauthorized_def

lemma Get_missing: "vs key = [] \<Longrightarrow> Get vs key = []"
  by (simp add: Get_def)

lemma VerifyRequest_env0_alice:
  "VerifyRequest env0 alice_request = Inr (alice\<lparr>Secret := []\<rparr>)"
  by (simp add: VerifyRequest_def env0_def alice_request_def request0_def Get_def no_values_def)

lemma VerifyRequest_env0_request0:
  "VerifyRequest env0 request0 = Inl (errors_New ''Secret not valid'')"
  by (simp add: VerifyRequest_def env0_def request0_def Get_def no_values_def)

lemma createContext_env0:
  "createContext env0 token (LogTraceId (NewLogger env0)) =
     Inr \<lparr>ContextToken = token, Transaction = 1, ContextLogger = \<lparr>LogTraceId = 7\<rparr>\<rparr>"
  by (simp add: env0_def)

lemma env0_GetParam_config: "GetParam env0 ''config'' callback_request = Inr ''c0ffee''"
  by (simp add: GetParam_def FormValue_def Get_def callback_request_def request0_def
      no_values_def env0_def trim_blanks_def)

lemma env0_GetParam_redirect:
  "GetParam env0 ''redirect'' callback_request = Inr ''https://client/land''"
  by (simp add: GetParam_def FormValue_def Get_def callback_request_def request0_def
      no_values_def env0_def trim_blanks_def)

lemma state1_maps:
  "loggers state1 ''c0ffee'' = Some (Some \<lparr>LogTraceId = 7\<rparr>)"
  "configs state1 ''c0ffee'' = Some (Some (UserConfig_zero\<lparr>RequestTokenKey := ''rk''\<rparr>))"
  by (simp_all add: state1_def state0_def)

lemma env0_requestAccessToken:
  "requestAccessToken env0 callback_request (UserConfig_zero\<lparr>RequestTokenKey := ''rk''\<rparr>) =
     Inr \<lparr>RequestTokenSecret = [], RequestTokenKey = ''rk'', AccessTokenSecret = ''ot'',
          AccessTokenKey = ''ak'', Verifier = ''ov''\<rparr>"
  by (simp add: requestAccessToken_def env0_def UserConfig_zero_def FormValue_def Get_def
      callback_request_def request0_def no_values_def)

section \<open>The request pipeline: faults, declared failures, rejected tokens\<close>

text \<open>
  Claim C1. When the token verifies, the context is created (the transaction is open) and
  the handler panics, \<^verbatim>\<open>prepareAndHandle\<close> recovers: it answers 500 with the text of the
  panic value and calls \<^verbatim>\<open>Rollback\<close>. The request leaves exactly one status line, one body
  and one resolution of the transaction, which is the rollback; \<^verbatim>\<open>Commit\<close> is not called.
\<close>

theorem handler_panic_rolls_back:
  assumes "VerifyRequest e r = Inr token"
    and "createContext e token (LogTraceId (NewLogger e)) = Inr context"
    and "handler r context = Panics v"
  shows "prepareAndHandle e r handler =
           [TxBegin, WriteHeader 500, Write (Error (recovered v)), TxRollback]
         \<and> length (filter isStatus (prepareAndHandle e r handler)) = 1
         \<and> length (filter isBody (prepareAndHandle e r handler)) = 1
         \<and> length (filter isResolution (prepareAndHandle e r handler)) = 1
         \<and> TxRollback \<in> set (prepareAndHandle e r handler)
         \<and> TxCommit \<notin> set (prepareAndHandle e r handler)"
proof -
  have "prepareAndHandle e r handler =
           [TxBegin, WriteHeader 500, Write (Error (recovered v)), TxRollback]"
    using assms
    by (simp add: prepareAndHandle_def callHandler_def deferred_def response_defs status_defs
        split: option.split)
  then show ?thesis by simp
qed

theorem handler_panic_rolls_back_witness:
  "VerifyRequest env0 alice_request = Inr (alice\<lparr>Secret := []\<rparr>)
   \<and> panicking_handler alice_request
        \<lparr>ContextToken = alice\<lparr>Secret := []\<rparr>, Transaction = 1, ContextLogger = \<lparr>LogTraceId = 7\<rparr>\<rparr>
       = Panics (PanicOther ''index out of range'')
   \<and> prepareAndHandle env0 alice_request panicking_handler =
       [TxBegin, WriteHeader 500, Write ''index out of range'', TxRollback]"
proof -
  have v: "VerifyRequest env0 alice_request = Inr (alice\<lparr>Secret := []\<rparr>)"
    by (rule VerifyRequest_env0_alice)
  have c: "createContext env0 (alice\<lparr>Secret := []\<rparr>) (LogTraceId (NewLogger env0)) =
             Inr \<lparr>ContextToken = alice\<lparr>Secret := []\<rparr>, Transaction = 1,
                  ContextLogger = \<lparr>LogTraceId = 7\<rparr>\<rparr>"
    by (rule createContext_env0)
  have h: "panicking_handler alice_request
             \<lparr>ContextToken = alice\<lparr>Secret := []\<rparr>, Transaction = 1, ContextLogger = \<lparr>LogTraceId = 7\<rparr>\<rparr>
           = Panics (PanicOther ''index out of range'')"
    by (simp add: panicking_handler_def)
  from handler_panic_rolls_back [where handler = panicking_handler, OF v c h] v h
  show ?thesis by (simp add: recovered_def)
qed

text \<open>
  A handler that declares a failure: any status but 200, with an error as data. The
  pipeline panics with that error, and the deferred function answers as for a fault.
\<close>

lemma declared_failure_trace:
  assumes "VerifyRequest e r = Inr token"
    and "createContext e token (LogTraceId (NewLogger e)) = Inr context"
    and "handler r context = Returns response"
    and "statusCode response \<noteq> StatusOK"
    and "data response = ErrorData err"
  shows "prepareAndHandle e r handler = [TxBegin, WriteHeader 500, Write (Error err), TxRollback]"
  using assms
  by (simp add: prepareAndHandle_def callHandler_def deferred_def recovered_def response_defs
      status_defs split: option.split)

text \<open>
  Claim C2 says that a declared failure is answered with the status the handler declared
  and a sanitized body. The code does not: a handler that returns
  \<^verbatim>\<open>BadRequestError(errors.New("project name missing"))\<close>, status 400, is rolled back and
  answered with status 500 and the text of its error as the body.
\<close>

theorem declared_bad_request_answered_500:
  "refusing_handler alice_request
     \<lparr>ContextToken = alice\<lparr>Secret := []\<rparr>, Transaction = 1, ContextLogger = \<lparr>LogTraceId = 7\<rparr>\<rparr>
     = Returns \<lparr>statusCode = 400, data = ErrorData (errors_New ''project name missing'')\<rparr>
   \<and> prepareAndHandle env0 alice_request refusing_handler =
       [TxBegin, WriteHeader 500, Write ''project name missing'', TxRollback]"
proof -
  have h: "refusing_handler alice_request
     \<lparr>ContextToken = alice\<lparr>Secret := []\<rparr>, Transaction = 1, ContextLogger = \<lparr>LogTraceId = 7\<rparr>\<rparr>
     = Returns (BadRequestError (errors_New ''project name missing''))"
    by (simp add: refusing_handler_def)
  have "prepareAndHandle env0 alice_request refusing_handler =
       [TxBegin, WriteHeader 500, Write (Error (errors_New ''project name missing'')), TxRollback]"
    by (rule declared_failure_trace [where handler = refusing_handler,
          OF VerifyRequest_env0_alice createContext_env0 h])
      (simp_all add: BadRequestError_def status_defs)
  with h show ?thesis by (simp add: BadRequestError_def status_defs)
qed

text \<open>
  Claim C3. When \<^verbatim>\<open>VerifyRequest\<close> fails, with whatever error, \<^verbatim>\<open>prepareAndHandle\<close> answers 401
  with the one text \<open>No valid authentication token found\<close> and does nothing else: no
  context is created, so no transaction is opened, and the handler is not called.
\<close>

theorem unverified_request_unauthorized:
  assumes "VerifyRequest e r = Inl err"
  shows "prepareAndHandle e r handler =
           [WriteHeader 401, Write ''No valid authentication token found'']
         \<and> TxBegin \<notin> set (prepareAndHandle e r handler)"
  using assms by (simp add: prepareAndHandle_def response_defs status_defs)

theorem unverified_request_unauthorized_witness:
  "VerifyRequest env0 request0 = Inl (errors_New ''Secret not valid'')
   \<and> prepareAndHandle env0 request0 panicking_handler =
       [WriteHeader 401, Write ''No valid authentication token found'']"
proof -
  have v: "VerifyRequest env0 request0 = Inl (errors_New ''Secret not valid'')"
    by (rule VerifyRequest_env0_request0)
  from unverified_request_unauthorized [OF v, of panicking_handler] v show ?thesis
    by simp
qed

section \<open>The token codec and the sanitized token\<close>

lemma Verify_issued:
  assumes "\<And>token v. encode token = Inr v \<Longrightarrow> decode v = Inr token"
    and "Issue sign encode user uid validUntil = Inr v"
  shows "Verify sign decode now v =
           (if now \<le> validUntil
            then Inr \<lparr>ValidUntil = validUntil, User = user, UID = uid,
                      Secret = sign user uid validUntil\<rparr>
            else Inl (errors_New ''Expired''))"
proof -
  have "decode v = Inr \<lparr>ValidUntil = validUntil, User = user, UID = uid,
                         Secret = sign user uid validUntil\<rparr>"
    using assms by (simp add: Issue_def)
  then show ?thesis by (simp add: Verify_def)
qed

lemma codec0_roundtrip: "encode0 token = Inr v \<Longrightarrow> decode0 v = Inr token"
  by (simp add: encode0_def decode0_def split: if_splits)

lemma Issue_alice: "Issue sign0 encode0 ''alice'' ''1'' 100 = Inr ''alice.1.100.sig''"
  by (simp add: Issue_def sign0_def encode0_def alice_def)

lemma alice_request_header: "Get (Header alice_request) ''Authorization'' = ''alice.1.100.sig''"
  by (simp add: Get_def alice_request_def request0_def no_values_def)

text \<open>
  Claim C4. With a serialization that decodes what it encoded, a token string issued for
  a user, an identity and an expiry instant, sent in the \<^verbatim>\<open>Authorization\<close> header, is
  accepted by \<^verbatim>\<open>VerifyRequest\<close> at the instant \<open>now\<close> if and only if \<open>now\<close> is not after
  the expiry instant.
\<close>

theorem issued_token_valid_until_expiry:
  assumes "\<And>token v. encode token = Inr v \<Longrightarrow> decode v = Inr token"
    and "Issue sign encode user uid validUntil = Inr v"
    and "Get (Header r) ''Authorization'' = v"
  shows "(\<exists>token. VerifyRequest (e\<lparr>verifyToken := Verify sign decode now\<rparr>) r = Inr token)
           \<longleftrightarrow> now \<le> validUntil"
  using assms(3) Verify_issued [OF assms(1,2), where now = now]
  by (simp add: VerifyRequest_def)

theorem issued_token_valid_until_expiry_witness:
  "Issue sign0 encode0 ''alice'' ''1'' 100 = Inr ''alice.1.100.sig''
   \<and> (\<exists>token. VerifyRequest (env0\<lparr>verifyToken := Verify sign0 decode0 100\<rparr>) alice_request
                = Inr token)
   \<and> (\<nexists>token. VerifyRequest (env0\<lparr>verifyToken := Verify sign0 decode0 101\<rparr>) alice_request
                = Inr token)"
  using issued_token_valid_until_expiry [OF codec0_roundtrip Issue_alice alice_request_header,
      where e = env0 and now = 100]
    issued_token_valid_until_expiry [OF codec0_roundtrip Issue_alice alice_request_header,
      where e = env0 and now = 101]
    Issue_alice
  by simp

text \<open>
  Claim C5. The token \<^verbatim>\<open>VerifyRequest\<close> returns has the empty string in its secret field,
  whatever \<^verbatim>\<open>verifyToken\<close> returned.
\<close>

theorem verified_token_secret_cleared:
  assumes "VerifyRequest e r = Inr token"
  shows "Secret token = []"
  using assms by (auto simp: VerifyRequest_def split: sum.splits)

theorem verified_token_secret_cleared_witness:
  "VerifyRequest env0 alice_request = Inr (alice\<lparr>Secret := []\<rparr>)
   \<and> Secret alice = ''sig'' \<and> Secret (alice\<lparr>Secret := []\<rparr>) = []"
proof -
  have v: "VerifyRequest env0 alice_request = Inr (alice\<lparr>Secret := []\<rparr>)"
    by (rule VerifyRequest_env0_alice)
  from verified_token_secret_cleared [OF v] v show ?thesis
    by (simp add: alice_def)
qed

section \<open>The streaming adapter\<close>

text \<open>
  Claim C8. When the query has no \<open>token\<close> (then \<^verbatim>\<open>Get\<close> returns the empty string), an empty
  one, the text \<open>null\<close> or the character U+009E, \<^verbatim>\<open>authenticatedWebsocket\<close> answers 401 and
  returns: no sender is created, the handler is not called, and nothing on this path
  opens a transaction.
\<close>

theorem websocket_placeholder_unauthorized:
  assumes "Get (Query r) ''token'' = [] \<or> Get (Query r) ''token'' = ''null''
           \<or> Get (Query r) ''token'' = [CHR 0xC2, CHR 0x9E]"
  shows "authenticatedWebsocket e handler r =
           [WriteHeader 401,
            Write (''could not establish websocket connection: query parameter ''
                   @ [CHR 0x27] @ ''token'' @ [CHR 0x27] @ '' not set'')]
         \<and> SenderInit \<notin> set (authenticatedWebsocket e handler r)
         \<and> TxBegin \<notin> set (authenticatedWebsocket e handler r)"
  using assms by (auto simp: authenticatedWebsocket_def response_defs status_defs Let_def)

theorem websocket_placeholder_unauthorized_witness:
  "Get (Query null_token_request) ''token'' = ''null''
   \<and> authenticatedWebsocket env0 idle_websocket_handler null_token_request =
       [WriteHeader 401,
        Write (''could not establish websocket connection: query parameter ''
               @ [CHR 0x27] @ ''token'' @ [CHR 0x27] @ '' not set'')]"
proof -
  have q: "Get (Query null_token_request) ''token'' = ''null''"
    by (simp add: Get_def null_token_request_def request0_def no_values_def)
  then have "Get (Query null_token_request) ''token'' = [] \<or>
             Get (Query null_token_request) ''token'' = ''null'' \<or>
             Get (Query null_token_request) ''token'' = [CHR 0xC2, CHR 0x9E]"
    by simp
  from websocket_placeholder_unauthorized [OF this, of env0 idle_websocket_handler] q
  show ?thesis by simp
qed

section \<open>The handshake maps\<close>

lemma OauthCallback_no_key:
  "GetParam e ''config'' r = Inl err \<Longrightarrow> OauthCallback e r s = (ResponseBadRequest err, s)"
  by (simp add: OauthCallback_def)

lemma OauthCallback_consumed:
  assumes "GetParam e ''config'' r = Inr k"
    and "loggers s k = None \<or> loggers s k = Some None"
  shows "OauthCallback e r s =
           (ResponseBadRequest (errors_New (''Logger for config key '' @ k @ '' not found'')), s)"
  using assms by (auto simp: OauthCallback_def)

lemma OauthCallback_loggers:
  assumes "GetParam e ''config'' r = Inr k" and "loggers s k = Some (Some logger)"
  shows "loggers (snd (OauthCallback e r s)) = (loggers s)(k \<mapsto> None)"
  using assms
  by (simp add: OauthCallback_def Let_def split: option.split sum.split prod.split)

lemma OauthCallback_configs:
  assumes "GetParam e ''config'' r = Inr k" and "loggers s k = Some (Some logger)"
    and "configs s k = Some (Some c)"
  shows "configs (snd (OauthCallback e r s)) = (configs s)(k \<mapsto> None)"
  using assms
  by (simp add: OauthCallback_def Let_def split: option.split sum.split prod.split)

lemma OauthCallback_loggers_cases:
  "loggers (snd (OauthCallback e r s)) = loggers s
   \<or> (\<exists>k. loggers (snd (OauthCallback e r s)) = (loggers s)(k \<mapsto> None))"
proof (cases "GetParam e ''config'' r")
  case (Inl err)
  then show ?thesis by (simp add: OauthCallback_no_key)
next
  case (Inr k)
  show ?thesis
  proof (cases "loggers s k = None \<or> loggers s k = Some None")
    case True
    with Inr show ?thesis by (simp add: OauthCallback_consumed)
  next
    case False
    then obtain logger where "loggers s k = Some (Some logger)" by auto
    with Inr show ?thesis by (auto dest: OauthCallback_loggers)
  qed
qed

lemma consumed_after_call:
  assumes "GetParam e ''config'' r = Inr k"
  shows "consumed k (snd (OauthCallback e r s))"
proof (cases "loggers s k = None \<or> loggers s k = Some None")
  case True
  with assms show ?thesis by (simp add: OauthCallback_consumed consumed_def)
next
  case False
  then obtain logger where "loggers s k = Some (Some logger)" by auto
  with assms show ?thesis by (simp add: OauthCallback_loggers consumed_def)
qed

lemma consumed_preserved: "consumed k s \<Longrightarrow> consumed k (snd (OauthCallback e r s))"
  using OauthCallback_loggers_cases [of e r s]
  by (auto simp: consumed_def split: if_splits)

lemma consumed_callbacks: "consumed k s \<Longrightarrow> consumed k (callbacks cs s)"
  by (induction cs arbitrary: s) (auto simp: consumed_preserved)

text \<open>
  Claim C6. After one call of \<^verbatim>\<open>OauthCallback\<close> with the config key \<open>k\<close>, and after any
  further callback calls, a call with the same key answers 400 with the text
  \<open>Logger for config key k not found\<close> and changes nothing: the first call has mapped the
  key to nil (or found it absent or nil), and no callback maps it to a logger again.
\<close>

theorem callback_key_single_use:
  assumes "GetParam e ''config'' r = Inr k"
    and "GetParam e2 ''config'' r2 = Inr k"
  shows "OauthCallback e2 r2 (callbacks cs (snd (OauthCallback e r s))) =
           (ResponseBadRequest (errors_New (''Logger for config key '' @ k @ '' not found'')),
            callbacks cs (snd (OauthCallback e r s)))"
proof -
  have "consumed k (callbacks cs (snd (OauthCallback e r s)))"
    using assms(1) by (simp add: consumed_after_call consumed_callbacks)
  then show ?thesis
    using assms(2) by (simp add: OauthCallback_consumed consumed_def)
qed

theorem callback_key_single_use_witness:
  "GetParam env0 ''config'' callback_request = Inr ''c0ffee''
   \<and> fst (OauthCallback env0 callback_request state1) =
       [Redirect ''https://client/land?token=..sig'' 307]
   \<and> fst (OauthCallback env0 callback_request
        (callbacks [(env0, callback_request)] (snd (OauthCallback env0 callback_request state1)))) =
       [WriteHeader 400, Write ''Logger for config key c0ffee not found'']"
proof -
  have k: "GetParam env0 ''config'' callback_request = Inr ''c0ffee''"
    by (rule env0_GetParam_config)
  have first: "fst (OauthCallback env0 callback_request state1) =
       [Redirect ''https://client/land?token=..sig'' 307]"
    by code_simp
  from callback_key_single_use [OF k k, of "[(env0, callback_request)]" state1] k first
  show ?thesis by (simp add: response_defs status_defs)
qed

text \<open>
  Claim C7 says that a consumed key is no longer present in the maps. The code assigns
  nil instead (under the comment \<open>Remove the config, we don't need it anymore\<close>): after a
  callback that consumed the key \<open>c0ffee\<close>, the key is in the domain of both maps, mapped
  to nil.
\<close>

theorem consumed_key_stays_in_maps:
  "loggers (snd (OauthCallback env0 callback_request state1)) ''c0ffee'' = Some None
   \<and> configs (snd (OauthCallback env0 callback_request state1)) ''c0ffee'' = Some None
   \<and> ''c0ffee'' \<in> dom (loggers (snd (OauthCallback env0 callback_request state1)))
   \<and> ''c0ffee'' \<in> dom (configs (snd (OauthCallback env0 callback_request state1)))"
  by (simp add: OauthCallback_loggers [OF env0_GetParam_config state1_maps(1)]
      OauthCallback_configs [OF env0_GetParam_config state1_maps])

section \<open>The user information of the callback\<close>

lemma requestUserInformation_decoded:
  assumes "NewRequest e ''GET'' (osmUserDetailsUrl s) = Inr req"
    and "Sign e req c = Inr req1"
    and "Do e req1 = Inr response"
    and "ReadAll (Body response) = Inr body"
    and "xml_Unmarshal e body Osm_zero = (uerr, osm)"
  shows "requestUserInformation e s c = Inr (DisplayName (OsmUser osm), UserId (OsmUser osm))"
  using assms by (simp add: requestUserInformation_def)

lemma requestUserInformation_state:
  "requestUserInformation e (s\<lparr>loggers := l, configs := c\<rparr>) = requestUserInformation e s"
  by (rule ext) (simp add: requestUserInformation_def)

text \<open>
  Claim C9 says that after a body that does not parse, the token is issued for an empty
  display name and an empty uid. The code reads the two fields from the struct as the
  decoder left it, and a decoder that fails may have filled them: on the cut-off document
  of \<open>env_truncated\<close> the decoder reports its error, the user information is
  \<open>(bob, 7)\<close>, and the token is issued for it.
\<close>

theorem unparseable_body_names_counterexample:
  "fst (xml_Unmarshal env_truncated truncated_document Osm_zero) \<noteq> None
   \<and> requestUserInformation env_truncated state1
        \<lparr>RequestTokenSecret = [], RequestTokenKey = ''rk'', AccessTokenSecret = ''ot'',
          AccessTokenKey = ''ak'', Verifier = ''ov''\<rparr> \<noteq> Inr ([], [])
   \<and> fst (OauthCallback env_truncated callback_request state1) =
       [Redirect ''https://client/land?token=bob.7.sig'' 307]"
  by code_simp

text \<open>
  Claim C9, amended. When the callback reaches the decoding of the body and
  \<^verbatim>\<open>xml.Unmarshal\<close> returns an error, \<^verbatim>\<open>OauthCallback\<close> does not fail on it: the token is
  created for the display name and the uid that the decoder left in the struct, and the
  answer is the redirect to the client with that token. (Where the decoder left the
  struct untouched, these are the empty strings.)
\<close>

theorem unmarshal_error_ignored:
  assumes "GetParam e ''config'' r = Inr k"
    and "loggers s k = Some (Some logger)"
    and "configs s k = Some (Some c)"
    and "GetParam e ''redirect'' r = Inr url"
    and "requestAccessToken e r c = Inr c1"
    and "NewRequest e ''GET'' (osmUserDetailsUrl s) = Inr req"
    and "Sign e req c1 = Inr req1"
    and "Do e req1 = Inr response"
    and "ReadAll (Body response) = Inr body"
    and "xml_Unmarshal e body Osm_zero = (Some uerr, osm)"
    and "createTokenString e (DisplayName (OsmUser osm)) (UserId (OsmUser osm)) (validUntil_of e s)
           = Inr tokenString"
  shows "fst (OauthCallback e r s) = [Redirect (url @ ''?token='' @ tokenString) 307]"
proof -
  have info: "requestUserInformation e s c1 =
                Inr (DisplayName (OsmUser osm), UserId (OsmUser osm))"
    using assms(6-10) by (rule requestUserInformation_decoded)
  show ?thesis
    using assms(1-5,11) info
    by (simp add: OauthCallback_def Let_def requestUserInformation_state validUntil_of_def
        status_defs)
qed

theorem unmarshal_error_ignored_witness:
  "xml_Unmarshal env0 ''<html>'' Osm_zero = (Some (errors_New ''EOF''), Osm_zero)
   \<and> fst (OauthCallback env0 callback_request state1) =
       [Redirect ''https://client/land?token=..sig'' 307]"
proof -
  let ?c1 = "\<lparr>RequestTokenSecret = [], RequestTokenKey = ''rk'', AccessTokenSecret = ''ot'',
          AccessTokenKey = ''ak'', Verifier = ''ov''\<rparr>"
  let ?req = "\<lparr>ReqMethod = ''GET'', ReqURL = ''https://osm/api/0.6/user/details'',
               ReqAuthorization = []\<rparr>"
  have n: "NewRequest env0 ''GET'' (osmUserDetailsUrl state1) = Inr ?req"
    by (simp add: env0_def state1_def state0_def)
  have s: "Sign env0 ?req ?c1 = Inr (?req\<lparr>ReqAuthorization := ''OAuth''\<rparr>)"
    by (simp add: env0_def)
  have d: "Do env0 (?req\<lparr>ReqAuthorization := ''OAuth''\<rparr>) = Inr \<lparr>Body = Inr ''<html>''\<rparr>"
    by (simp add: env0_def)
  have b: "ReadAll (Body \<lparr>Body = Inr ''<html>''\<rparr>) = Inr ''<html>''"
    by (simp add: ReadAll_def)
  have u: "xml_Unmarshal env0 ''<html>'' Osm_zero = (Some (errors_New ''EOF''), Osm_zero)"
    by (simp add: env0_def)
  have t: "createTokenString env0 (DisplayName (OsmUser Osm_zero)) (UserId (OsmUser Osm_zero))
             (validUntil_of env0 state1) = Inr ''..sig''"
    by (simp add: env0_def Osm_zero_def)
  from unmarshal_error_ignored [OF env0_GetParam_config state1_maps env0_GetParam_redirect
      env0_requestAccessToken n s d b u t] u
  show ?thesis by simp
qed

section \<open>A login that fails\<close>

text \<open>The four places where \<^verbatim>\<open>OauthLogin\<close> gives up, and what it leaves.\<close>

lemma OauthLogin_random_failure:
  "getRandomBytes e 64 = Inl err \<Longrightarrow>
   OauthLogin e r s =
     ([WriteHeader 500, Write ''Could not get random bytes for config key''], s)"
  by (simp add: OauthLogin_def response_defs status_defs)

lemma OauthLogin_redirect_missing:
  "getRandomBytes e 64 = Inr b \<Longrightarrow> GetParam e ''redirect'' r = Inl err \<Longrightarrow>
   OauthLogin e r s = ([WriteHeader 400, Write (Error err)], s)"
  by (simp add: OauthLogin_def response_defs status_defs)

lemma OauthLogin_request_token_failure:
  "getRandomBytes e 64 = Inr b \<Longrightarrow> GetParam e ''redirect'' r = Inr url \<Longrightarrow>
   GetRequestToken e (oauthRedirectUrl s @ ''?redirect='' @ url @ ''&config='' @ sha256_hex e b)
     UserConfig_zero = Inl err \<Longrightarrow>
   fst (OauthLogin e r s) = [] \<and> configs (snd (OauthLogin e r s)) = configs s
   \<and> loggers (snd (OauthLogin e r s)) = loggers s"
  by (simp add: OauthLogin_def Let_def)

lemma OauthLogin_authorize_url_failure:
  "getRandomBytes e 64 = Inr b \<Longrightarrow> GetParam e ''redirect'' r = Inr url \<Longrightarrow>
   GetRequestToken e (oauthRedirectUrl s @ ''?redirect='' @ url @ ''&config='' @ sha256_hex e b)
     UserConfig_zero = Inr c \<Longrightarrow>
   GetAuthorizeURL e c = Inl err \<Longrightarrow>
   fst (OauthLogin e r s) = [] \<and> configs (snd (OauthLogin e r s)) = configs s
   \<and> loggers (snd (OauthLogin e r s)) = loggers s"
  by (simp add: OauthLogin_def Let_def)

lemma OauthLogin_success:
  "getRandomBytes e 64 = Inr b \<Longrightarrow> GetParam e ''redirect'' r = Inr url \<Longrightarrow>
   GetRequestToken e (oauthRedirectUrl s @ ''?redirect='' @ url @ ''&config='' @ sha256_hex e b)
     UserConfig_zero = Inr c \<Longrightarrow>
   GetAuthorizeURL e c = Inr authorizeUrl \<Longrightarrow>
   fst (OauthLogin e r s) = [Redirect authorizeUrl 307]
   \<and> configs (snd (OauthLogin e r s)) = (configs s)(sha256_hex e b \<mapsto> Some c)
   \<and> loggers (snd (OauthLogin e r s)) = (loggers s)(sha256_hex e b \<mapsto> Some (NewLogger e))"
  by (simp add: OauthLogin_def Let_def status_defs)

text \<open>
  Claim C10. A call of \<^verbatim>\<open>OauthLogin\<close> that does not end in the redirect to the provider, that
  is, one that fails at the random bytes, at the \<open>redirect\<close> parameter, at the request
  token or at the authorize URL, leaves \<^verbatim>\<open>configs\<close> and \<^verbatim>\<open>loggers\<close> as they were.
\<close>

theorem failed_login_keeps_maps:
  assumes "OauthLogin e r s = (evs, s')" and "\<not> redirected evs"
  shows "configs s' = configs s \<and> loggers s' = loggers s"
  using assms
  by (auto simp: OauthLogin_def Let_def response_defs split: sum.splits)

theorem failed_login_keeps_maps_witness:
  "fst (OauthLogin env_provider_down login_request state1) = []
   \<and> \<not> redirected (fst (OauthLogin env_provider_down login_request state1))
   \<and> configs (snd (OauthLogin env_provider_down login_request state1)) = configs state1
   \<and> loggers (snd (OauthLogin env_provider_down login_request state1)) = loggers state1
   \<and> CallbackURL (snd (OauthLogin env_provider_down login_request state1)) =
       ''https://stm:8080/oauth_callback?redirect=https://client/land&config=c0ffee''"
proof -
  have f: "fst (OauthLogin env_provider_down login_request state1) = []"
    by code_simp
  have c: "CallbackURL (snd (OauthLogin env_provider_down login_request state1)) =
       ''https://stm:8080/oauth_callback?redirect=https://client/land&config=c0ffee''"
    by code_simp
  have n: "\<not> redirected (fst (OauthLogin env_provider_down login_request state1))"
    by (simp add: f)
  from failed_login_keeps_maps [OF prod.collapse [symmetric] n] f n c
  show ?thesis by simp
qed

end
